theory Spec2Isabelle
  imports Main
begin

section \<open>Python string helpers\<close>

text \<open>
  Python \<open>str\<close> values are modelled as \<open>string\<close>, one \<open>char\<close> per code point, which
  covers the code points below 256. The whitespace of \<open>str.split\<close> and \<open>str.strip\<close>
  in that range is TAB, LF, VT, FF, CR, FS, GS, RS, US, SPACE, NEL and NBSP.
\<close>

definition isspace :: "char \<Rightarrow> bool" where
  "isspace c = (of_char c \<in> {9, 10, 11, 12, 13, 28, 29, 30, 31, 32, 133, 160 :: nat})"

text \<open>\<open>s.startswith(p)\<close>.\<close>

definition startswith :: "string \<Rightarrow> string \<Rightarrow> bool" where
  "startswith s p = (take (length p) s = p)"

text \<open>\<open>s.lower()\<close> on code points below 256: A-Z and the Latin-1 capitals move by 32.\<close>

definition lower_char :: "char \<Rightarrow> char" where
  "lower_char c =
     (let n = (of_char c :: nat)
      in if (65 \<le> n \<and> n \<le> 90) \<or> (192 \<le> n \<and> n \<le> 222 \<and> n \<noteq> 215)
         then char_of (n + 32) else c)"

definition lower :: "string \<Rightarrow> string" where
  "lower s = map lower_char s"

text \<open>\<open>s.strip()\<close>: whitespace removed at both ends.\<close>

definition strip :: "string \<Rightarrow> string" where
  "strip s = rev (dropWhile isspace (rev (dropWhile isspace s)))"

text \<open>
  \<open>s.split(maxsplit=k)\<close>: leading whitespace is skipped, at most \<open>k\<close> tokens are cut
  off, and what is left after them (its leading whitespace skipped, its trailing
  whitespace kept) is the last element when it is not empty.
\<close>

fun split_max :: "nat \<Rightarrow> string \<Rightarrow> string list" where
  "split_max 0 s = (case dropWhile isspace s of [] \<Rightarrow> [] | c # cs \<Rightarrow> [c # cs])"
| "split_max (Suc k) s =
     (case dropWhile isspace s of
        [] \<Rightarrow> []
      | c # cs \<Rightarrow> takeWhile (\<lambda>x. \<not> isspace x) (c # cs)
                 # split_max k (dropWhile (\<lambda>x. \<not> isspace x) (c # cs)))"

text \<open>\<open>s.split()\<close>: every whitespace-separated token. A string of length \<open>n\<close> has at
  most \<open>n\<close> tokens, so \<open>n\<close> cuts are as good as no bound.\<close>

definition split :: "string \<Rightarrow> string list" where
  "split s = split_max (length s) s"

text \<open>\<open>str(n)\<close> for an integer, as the f-strings format identifiers.\<close>

fun digits :: "nat \<Rightarrow> string" where
  "digits n =
     (if n < 10 then [char_of (48 + n)]
      else digits (n div 10) @ [char_of (48 + n mod 10)])"

declare digits.simps [simp del]

definition str_int :: "int \<Rightarrow> string" where
  "str_int i = (if i < 0 then CHR ''-'' # digits (nat (- i)) else digits (nat i))"

text \<open>\<open>str(x)\<close> for a value that is an integer or \<open>None\<close>.\<close>

definition str_opt_int :: "int option \<Rightarrow> string" where
  "str_opt_int x = (case x of None \<Rightarrow> ''None'' | Some i \<Rightarrow> str_int i)"

section \<open>Inbound events\<close>

text \<open>
  The transport hands over JSON objects. A key that may be missing is an \<open>option\<close>
  field; \<open>d.get(k, default)\<close> is the case distinction on it.
\<close>

record tg_user =
  u_id :: "int option"
  u_username :: "string option"
  u_first_name :: "string option"
  u_last_name :: "string option"

text \<open>\<open>m_photo\<close> holds the \<open>file_id\<close> of each size of the photo, smallest first.\<close>

record message =
  m_chat :: "int option"
  m_from :: "tg_user option"
  m_text :: "string option"
  m_photo :: "string list option"
  m_caption :: "string option"

record callback_query =
  cq_id :: "string option"
  cq_from :: "tg_user option"
  cq_message :: "message option"
  cq_data :: "string option"

record update =
  update_id :: int
  upd_message :: "message option"
  upd_callback_query :: "callback_query option"

section \<open>Outbound messages\<close>

text \<open>
  A destination is the numeric chat identifier of an update, or a textual identifier
  (the channel constants and the target token of \<open>/respond\<close>).
\<close>

datatype dest = ChatId int | ChatName string

text \<open>
  Each message template of the source is one constructor, with the values its
  f-string interpolates as arguments. Two templates are the same constructor only
  where the source's literals are the same text.
\<close>

datatype body =
    Welcome string
  | CategoryPrompt "string list"
  | DiscordForm
  | PremiumForm
  | RefundForm
  | LostTrack
  | RefundRequest nat nat "int option" string string
  | CategoryReport string nat nat "int option" string string
  | SubmitOk nat
  | ForwardFailed
  | SaveFailed
  | PhotoRespondUsage
  | RespondUsage
  | AdminResponsePhoto string
  | AdminResponseText string
  | AdminResponseAudit string string
  | PhotoRespondOk
  | PhotoRespondFailed
  | RespondOk
  | RespondFailed
  | DebugInfo int "int option"
  | DebugTest "int option" nat
  | DebugOk string
  | DebugFailed string "(string \<times> bool) list option"
  | Raw string
  | Hello string
  | HelpText
  | Cancelled
  | YouSelected "string option"
  | LostTrackRunner
  | ThankYou "nat option" "string option"

datatype outbound =
    SendMessage dest body
  | SendPhoto dest string body
  | AnswerCallbackQuery "string option"

text \<open>
  The decoded JSON body of a reply of the provider, reduced to its boolean fields.
  \<open>None\<close> in place of a reply is the \<open>None\<close> that the senders return after a failed
  request.
\<close>

type_synonym json = "(string \<times> bool) list"

definition truthy :: "json option \<Rightarrow> bool" where
  "truthy r = (case r of None \<Rightarrow> False | Some d \<Rightarrow> d \<noteq> [])"

definition get_ok :: "json option \<Rightarrow> bool" where
  "get_ok r =
     (case r of
        None \<Rightarrow> False
      | Some d \<Rightarrow> (case map_of d ''ok'' of None \<Rightarrow> False | Some b \<Rightarrow> b))"

section \<open>State and environment\<close>

datatype conv_state = STATE_IDLE | STATE_AWAITING_CATEGORY | STATE_AWAITING_DESCRIPTION

text \<open>One entry of \<open>user_states\<close>: the keys \<open>state\<close>, \<open>category\<close> and \<open>message_data\<close>.\<close>

record session =
  s_state :: conv_state
  s_category :: "string option"
  s_message_data :: "message option"

text \<open>A row of the \<open>report\<close> table.\<close>

record report =
  r_id :: nat
  r_user_id :: int
  r_username :: string
  r_category :: string
  r_description :: string
  r_status :: string
  r_timestamp :: nat

text \<open>
  What a handler cannot decide by itself: whether the INSERT goes through, what the
  provider answers to each request, and the time.
\<close>

record env =
  db_ok :: bool
  net :: "outbound \<Rightarrow> json option"
  clock :: nat

text \<open>
  The module-level \<open>user_states\<close>, the table, and the log of every request issued to
  the provider together with its reply.
\<close>

record bot =
  user_states :: "int option \<rightharpoonup> session"
  reports :: "report list"
  sent :: "(outbound \<times> json option) list"

definition CHANNEL_ID :: string where
  "CHANNEL_ID = ''-1002544234044''"

definition RESPONSE_CHANNEL_ID :: string where
  "RESPONSE_CHANNEL_ID = ''-1002326727802''"

definition CATEGORIES :: "string list" where
  "CATEGORIES = [''Discord Items'', ''Premiums'']"

section \<open>The report store\<close>

text \<open>
  \<open>cursor.lastrowid\<close> of an INTEGER PRIMARY KEY table: one more than the largest
  identifier in the table, 1 for the empty table.
\<close>

definition next_rowid :: "report list \<Rightarrow> nat" where
  "next_rowid rs = Suc (fold max (map r_id rs) 0)"

text \<open>
  \<open>save_report\<close>. The column \<open>user_id\<close> is NOT NULL, so a missing sender makes the
  INSERT raise like any other database failure, and the handler returns \<open>None\<close>.
\<close>

definition save_report ::
  "env \<Rightarrow> int option \<Rightarrow> string \<Rightarrow> string \<Rightarrow> string \<Rightarrow> bot \<Rightarrow> nat option \<times> bot" where
  "save_report e user_id username category description st =
     (case user_id of
        None \<Rightarrow> (None, st)
      | Some uid \<Rightarrow>
          if db_ok e then
            (let report_id = next_rowid (reports st)
             in (Some report_id,
                 st\<lparr>reports := reports st @
                   [\<lparr>r_id = report_id, r_user_id = uid, r_username = username,
                     r_category = category, r_description = description,
                     r_status = ''Pending'', r_timestamp = clock e\<rparr>]\<rparr>))
          else (None, st))"

text \<open>
  \<open>get_reports\<close> of the admin console: every row, by descending timestamp. The
  sort is stable, so rows with the same timestamp stay in the order of insertion, as
  the table scan gives them.
\<close>

definition get_reports :: "bot \<Rightarrow> report list" where
  "get_reports st = sort_key (\<lambda>r. - int (r_timestamp r)) (reports st)"

section \<open>Senders\<close>

definition send_message :: "env \<Rightarrow> dest \<Rightarrow> body \<Rightarrow> bot \<Rightarrow> json option \<times> bot" where
  "send_message e chat_id b st =
     (let response = net e (SendMessage chat_id b)
      in (response, st\<lparr>sent := sent st @ [(SendMessage chat_id b, response)]\<rparr>))"

definition send_photo_to_channel ::
  "env \<Rightarrow> dest \<Rightarrow> string \<Rightarrow> body \<Rightarrow> bot \<Rightarrow> json option \<times> bot" where
  "send_photo_to_channel e channel_id file_id caption st =
     (let response = net e (SendPhoto channel_id file_id caption)
      in (response, st\<lparr>sent := sent st @ [(SendPhoto channel_id file_id caption, response)]\<rparr>))"

definition send_to_channel :: "env \<Rightarrow> body \<Rightarrow> bot \<Rightarrow> json option \<times> bot" where
  "send_to_channel e b st =
     (let (response, st') = send_message e (ChatName CHANNEL_ID) b st
      in if truthy response \<and> get_ok response then (response, st') else (None, st'))"

definition answer_callback_query :: "env \<Rightarrow> string option \<Rightarrow> bot \<Rightarrow> json option \<times> bot" where
  "answer_callback_query e callback_query_id st =
     (let response = net e (AnswerCallbackQuery callback_query_id)
      in (response, st\<lparr>sent := sent st @ [(AnswerCallbackQuery callback_query_id, response)]\<rparr>))"

section \<open>The conversation engine of \<open>telegram_api_bot.py\<close>\<close>

definition idle_session :: session where
  "idle_session = \<lparr>s_state = STATE_IDLE, s_category = None, s_message_data = None\<rparr>"

text \<open>\<open>user_id in user_states and user_states[user_id]["state"] == q\<close>.\<close>

definition in_state :: "bot \<Rightarrow> int option \<Rightarrow> conv_state \<Rightarrow> bool" where
  "in_state st user_id q =
     (case user_states st user_id of None \<Rightarrow> False | Some s \<Rightarrow> s_state s = q)"

text \<open>\<open>user_states.get(user_id, {}).get("message_data", None)\<close>.\<close>

definition get_message_data :: "bot \<Rightarrow> int option \<Rightarrow> message option" where
  "get_message_data st user_id =
     (case user_states st user_id of None \<Rightarrow> None | Some s \<Rightarrow> s_message_data s)"

text \<open>
  \<open>cmd_start\<close> keeps the whole message as \<open>message_data\<close>. The handlers run only on
  a message with a chat identifier, so the stored dictionary is never empty and the
  later tests \<open>if message_data:\<close> ask whether the key is there.
\<close>

definition cmd_start :: "env \<Rightarrow> int \<Rightarrow> int option \<Rightarrow> message \<Rightarrow> bot \<Rightarrow> bot" where
  "cmd_start e chat_id user_id msg st =
     (let st1 = st\<lparr>user_states := (user_states st)(user_id \<mapsto>
                   \<lparr>s_state = STATE_IDLE, s_category = None, s_message_data = Some msg\<rparr>)\<rparr>;
          name = (case m_from msg of
                    None \<Rightarrow> ''user''
                  | Some u \<Rightarrow> (case u_username u of None \<Rightarrow> ''user'' | Some h \<Rightarrow> h))
      in snd (send_message e (ChatId chat_id) (Welcome name) st1))"

definition cmd_report :: "env \<Rightarrow> int \<Rightarrow> int option \<Rightarrow> bot \<Rightarrow> bot" where
  "cmd_report e chat_id user_id st =
     (let message_data = get_message_data st user_id;
          st1 = st\<lparr>user_states := (user_states st)(user_id \<mapsto>
                   \<lparr>s_state = STATE_AWAITING_CATEGORY, s_category = None,
                     s_message_data = message_data\<rparr>)\<rparr>
      in snd (send_message e (ChatId chat_id) (CategoryPrompt CATEGORIES) st1))"

definition process_category :: "env \<Rightarrow> int \<Rightarrow> int option \<Rightarrow> string \<Rightarrow> bot \<Rightarrow> bot" where
  "process_category e chat_id user_id category st =
     (if category = ''Discord Items'' then snd (send_message e (ChatId chat_id) DiscordForm st)
      else if category = ''Premiums'' then snd (send_message e (ChatId chat_id) PremiumForm st)
      else st)"

definition cmd_refund :: "env \<Rightarrow> int \<Rightarrow> int option \<Rightarrow> bot \<Rightarrow> bot" where
  "cmd_refund e chat_id user_id st =
     (let message_data = get_message_data st user_id;
          st1 = st\<lparr>user_states := (user_states st)(user_id \<mapsto>
                   \<lparr>s_state = STATE_AWAITING_DESCRIPTION, s_category = Some ''Refund'',
                     s_message_data = message_data\<rparr>)\<rparr>
      in snd (send_message e (ChatId chat_id) RefundForm st1))"

text \<open>
  The name under which \<open>process_description\<close> files a report:
  \<open>user_states[user_id].get("message_data", {}).get("from", {}).get("username",
  f"user_{user_id}")\<close>.
\<close>

definition resolve_username :: "session \<Rightarrow> int option \<Rightarrow> string" where
  "resolve_username s user_id =
     (let user_data = (case s_message_data s of None \<Rightarrow> None | Some m \<Rightarrow> m_from m)
      in case user_data of
           None \<Rightarrow> ''user_'' @ str_opt_int user_id
         | Some u \<Rightarrow>
             (case u_username u of
                None \<Rightarrow> ''user_'' @ str_opt_int user_id
              | Some h \<Rightarrow> h))"

definition lost_track :: "env \<Rightarrow> int \<Rightarrow> int option \<Rightarrow> bot \<Rightarrow> bot" where
  "lost_track e chat_id user_id st =
     (let st1 = snd (send_message e (ChatId chat_id) LostTrack st)
      in st1\<lparr>user_states := (user_states st1)(user_id \<mapsto> idle_session)\<rparr>)"

definition process_description :: "env \<Rightarrow> int \<Rightarrow> int option \<Rightarrow> string \<Rightarrow> bot \<Rightarrow> bot" where
  "process_description e chat_id user_id description st =
     (case user_states st user_id of
        None \<Rightarrow> lost_track e chat_id user_id st
      | Some s \<Rightarrow>
          (case s_category s of
             None \<Rightarrow> lost_track e chat_id user_id st
           | Some category \<Rightarrow>
               (let username = resolve_username s user_id;
                    (report_id, st1) = save_report e user_id username category description st;
                    st2 =
                      (case report_id of
                         None \<Rightarrow> snd (send_message e (ChatId chat_id) SaveFailed st1)
                       | Some rid \<Rightarrow>
                           if rid = 0 then snd (send_message e (ChatId chat_id) SaveFailed st1)
                           else
                             (let channel_msg =
                                    (if category = ''Refund''
                                     then RefundRequest rid (clock e) user_id username description
                                     else CategoryReport category rid (clock e) user_id username
                                            description);
                                  (channel_response, st') = send_to_channel e channel_msg st1
                              in if truthy channel_response \<and> get_ok channel_response
                                 then snd (send_message e (ChatId chat_id) (SubmitOk rid) st')
                                 else snd (send_message e (ChatId chat_id) ForwardFailed st')))
                in st2\<lparr>user_states := (user_states st2)(user_id \<mapsto> idle_session)\<rparr>)))"

section \<open>The admin-response handler\<close>

text \<open>
  \<open>cmd_respond\<close>. In the photo branch a dispatch that returns nothing raises, and
  so does \<open>photo[-1]\<close> on an empty list; the inner handler answers both with the
  failure message. The text branch never looks at what its dispatches return.
\<close>

definition respond_photo ::
  "env \<Rightarrow> int \<Rightarrow> string list \<Rightarrow> string \<Rightarrow> string \<Rightarrow> bot \<Rightarrow> bot" where
  "respond_photo e chat_id ph target_user_id response_text st =
     (case ph of
        [] \<Rightarrow> snd (send_message e (ChatId chat_id) PhotoRespondFailed st)
      | _ # _ \<Rightarrow>
          (let photo = last ph;
               (response, st1) =
                 send_photo_to_channel e (ChatName target_user_id) photo
                   (AdminResponsePhoto response_text) st
           in if \<not> truthy response
              then snd (send_message e (ChatId chat_id) PhotoRespondFailed st1)
              else
                (let (response2, st2) =
                       send_photo_to_channel e (ChatName RESPONSE_CHANNEL_ID) photo
                         (AdminResponseAudit target_user_id response_text) st1
                 in if \<not> truthy response2
                    then snd (send_message e (ChatId chat_id) PhotoRespondFailed st2)
                    else snd (send_message e (ChatId chat_id) PhotoRespondOk st2))))"

definition respond_text :: "env \<Rightarrow> int \<Rightarrow> string \<Rightarrow> string \<Rightarrow> bot \<Rightarrow> bot" where
  "respond_text e chat_id target_user_id response_text st =
     (let st1 = snd (send_message e (ChatName target_user_id)
                       (AdminResponseText response_text) st);
          st2 = snd (send_message e (ChatName ''-1002326727802'')
                       (AdminResponseAudit target_user_id response_text) st1)
      in snd (send_message e (ChatId chat_id) RespondOk st2))"

text \<open>The photo of the update when \<open>"message" in update and "photo" in update["message"]\<close>.\<close>

definition photo_of_update :: "update option \<Rightarrow> (message \<times> string list) option" where
  "photo_of_update upd =
     (case upd of
        None \<Rightarrow> None
      | Some u \<Rightarrow>
          (case upd_message u of
             None \<Rightarrow> None
           | Some m \<Rightarrow> (case m_photo m of None \<Rightarrow> None | Some ph \<Rightarrow> Some (m, ph))))"

definition cmd_respond ::
  "env \<Rightarrow> int \<Rightarrow> int option \<Rightarrow> string \<Rightarrow> update option \<Rightarrow> bot \<Rightarrow> bot" where
  "cmd_respond e chat_id user_id text upd st =
     (case photo_of_update upd of
        Some (m, ph) \<Rightarrow>
          (let caption = (case m_caption m of None \<Rightarrow> [] | Some c \<Rightarrow> c)
           in if caption = [] \<or> \<not> startswith caption ''/respond''
              then snd (send_message e (ChatId chat_id) PhotoRespondUsage st)
              else
                (let parts = split_max 2 caption
                 in if length parts < 3
                    then snd (send_message e (ChatId chat_id) PhotoRespondUsage st)
                    else respond_photo e chat_id ph (parts ! 1) (parts ! 2) st))
      | None \<Rightarrow>
          (let parts = split_max 2 text
           in if length parts < 3
              then snd (send_message e (ChatId chat_id) RespondUsage st)
              else respond_text e chat_id (parts ! 1) (parts ! 2) st))"

text \<open>\<open>cmd_debug_channel\<close>: the second token, when there is one, is a channel to test.\<close>

definition cmd_debug_channel :: "env \<Rightarrow> int \<Rightarrow> int option \<Rightarrow> string \<Rightarrow> bot \<Rightarrow> bot" where
  "cmd_debug_channel e chat_id user_id text st =
     (let parts = split (strip text);
          st1 = snd (send_message e (ChatId chat_id) (DebugInfo chat_id user_id) st)
      in if length parts > 1 then
           (let new_channel_id = parts ! 1;
                (response, st2) =
                  send_message e (ChatName new_channel_id) (DebugTest user_id (clock e)) st1
            in if truthy response \<and> get_ok response
               then snd (send_message e (ChatId chat_id) (DebugOk new_channel_id) st2)
               else snd (send_message e (ChatId chat_id) (DebugFailed new_channel_id response) st2))
         else st1)"

section \<open>Routing\<close>

definition process_command :: "env \<Rightarrow> update \<Rightarrow> bot \<Rightarrow> bot" where
  "process_command e upd st =
     (case upd_message upd of
        None \<Rightarrow> st
      | Some msg \<Rightarrow>
          (let user_id = (case m_from msg of None \<Rightarrow> None | Some u \<Rightarrow> u_id u);
               text = (case m_text msg of None \<Rightarrow> [] | Some t \<Rightarrow> t);
               photo = (case m_photo msg of None \<Rightarrow> [] | Some p \<Rightarrow> p);
               caption = (case m_caption msg of None \<Rightarrow> [] | Some c \<Rightarrow> c)
           in case m_chat msg of
                None \<Rightarrow> st
              | Some chat_id \<Rightarrow>
                  if chat_id = 0 then st
                  else if photo \<noteq> [] \<and> in_state st user_id STATE_AWAITING_DESCRIPTION then
                    (let file_id = last photo;
                         st1 = process_description e chat_id user_id caption st
                     in snd (send_photo_to_channel e (ChatName CHANNEL_ID) file_id (Raw caption) st1))
                  else if text = [] then st
                  else if startswith text ''/start'' then cmd_start e chat_id user_id msg st
                  else if startswith text ''/report'' \<or> lower text = ''report''
                    then cmd_report e chat_id user_id st
                  else if startswith text ''/refund'' \<or> lower text = ''refund''
                    then cmd_refund e chat_id user_id st
                  else if startswith text ''/respond''
                    then cmd_respond e chat_id user_id text (Some upd) st
                  else if startswith text ''/debug_channel''
                    then cmd_debug_channel e chat_id user_id text st
                  else if in_state st user_id STATE_AWAITING_DESCRIPTION
                    then process_description e chat_id user_id text st
                  else st))"

definition process_callback_query :: "env \<Rightarrow> update \<Rightarrow> bot \<Rightarrow> bot" where
  "process_callback_query e upd st =
     (case upd_callback_query upd of
        None \<Rightarrow> st
      | Some cq \<Rightarrow>
          (let chat_id = (case cq_message cq of None \<Rightarrow> None | Some m \<Rightarrow> m_chat m);
               user_id = (case cq_from cq of None \<Rightarrow> None | Some u \<Rightarrow> u_id u)
           in case (chat_id, cq_data cq, user_id) of
                (Some c, Some data, Some u) \<Rightarrow>
                  if c = 0 \<or> data = [] \<or> u = 0 then st
                  else
                    (let st1 = snd (answer_callback_query e (cq_id cq) st)
                     in if in_state st1 user_id STATE_AWAITING_CATEGORY \<and> data \<in> set CATEGORIES
                        then
                          (let message_data = get_message_data st1 user_id;
                               st2 = st1\<lparr>user_states := (user_states st1)(user_id \<mapsto>
                                        \<lparr>s_state = STATE_AWAITING_DESCRIPTION,
                                          s_category = Some data,
                                          s_message_data = message_data\<rparr>)\<rparr>
                           in process_category e c user_id data st2)
                        else st1)
              | _ \<Rightarrow> st))"

section \<open>The polling driver of \<open>telegram_api_bot.py\<close>\<close>

text \<open>
  A handler call either returns or raises; both leave a state behind, since what a
  handler has written before it raises stays written.
\<close>

datatype 's outcome = Returned 's | Raised 's

definition state_of :: "'s outcome \<Rightarrow> 's" where
  "state_of r = (case r of Returned s \<Rightarrow> s | Raised s \<Rightarrow> s)"

text \<open>What the request \<open>getUpdates\<close> gives: an exception, or a body with \<open>ok\<close> and \<open>result\<close>.\<close>

datatype fetch_result = FetchRaised | Fetched bool "update list"

text \<open>\<open>get_updates\<close>: the batch, and \<open>self.offset\<close> as the method leaves it.\<close>

definition get_updates :: "(int \<Rightarrow> fetch_result) \<Rightarrow> int \<Rightarrow> update list \<times> int" where
  "get_updates fetch offset =
     (case fetch offset of
        FetchRaised \<Rightarrow> ([], offset)
      | Fetched ok updates \<Rightarrow>
          if ok then (updates, if updates \<noteq> [] then update_id (last updates) + 1 else offset)
          else ([], offset))"

text \<open>The body of the \<open>for\<close> loop of \<open>run\<close>.\<close>

definition route :: "env \<Rightarrow> update \<Rightarrow> bot \<Rightarrow> bot" where
  "route e upd st =
     (if upd_message upd \<noteq> None then process_command e upd st
      else if upd_callback_query upd \<noteq> None then process_callback_query e upd st
      else st)"

text \<open>
  The \<open>for\<close> loop inside the \<open>try\<close> of \<open>run\<close>: the first handler call that raises ends
  the batch. The handler is a parameter, so that a handler that raises can be put
  in; \<open>route\<close> itself always returns on the updates of this model.
\<close>

fun handle_batch :: "('u \<Rightarrow> 's \<Rightarrow> 's outcome) \<Rightarrow> 'u list \<Rightarrow> 's \<Rightarrow> 's outcome" where
  "handle_batch h [] s = Returned s"
| "handle_batch h (u # us) s =
     (case h u s of Raised s' \<Rightarrow> Raised s' | Returned s' \<Rightarrow> handle_batch h us s')"

text \<open>The events of a batch whose handler call has returned when the batch ends.\<close>

fun handed_off :: "('u \<Rightarrow> 's \<Rightarrow> 's outcome) \<Rightarrow> 'u list \<Rightarrow> 's \<Rightarrow> 'u list" where
  "handed_off h [] s = []"
| "handed_off h (u # us) s =
     (case h u s of Raised s' \<Rightarrow> [] | Returned s' \<Rightarrow> u # handed_off h us s')"

text \<open>One turn of the \<open>while\<close> loop of \<open>run\<close>, on the pair of the cursor and the state.\<close>

definition run_iteration ::
  "(int \<Rightarrow> fetch_result) \<Rightarrow> (update \<Rightarrow> 's \<Rightarrow> 's outcome) \<Rightarrow> int \<times> 's \<Rightarrow> int \<times> 's" where
  "run_iteration fetch h cs =
     (let (updates, offset') = get_updates fetch (fst cs)
      in (offset', state_of (handle_batch h updates (snd cs))))"

text \<open>A run of events through \<open>route\<close>, each with the environment it meets.\<close>

fun run_events :: "(env \<times> update) list \<Rightarrow> bot \<Rightarrow> bot" where
  "run_events [] st = st"
| "run_events ((e, u) # rest) st = run_events rest (route e u st)"

section \<open>The driver and engine of \<open>telegram_bot_runner.py\<close>\<close>

text \<open>
  This variant works on the objects of the client library: \<open>effective_user\<close> and
  \<open>effective_chat\<close> may be \<open>None\<close>, and reading a field of \<open>None\<close> raises. The library's
  senders raise when the request fails.
\<close>

record lib_user =
  lu_id :: int
  lu_username :: "string option"
  lu_first_name :: string
  lu_last_name :: "string option"

text \<open>\<open>lib_callback\<close> is the pair of \<open>callback_query.id\<close> and \<open>callback_query.data\<close>.\<close>

record lib_update =
  lib_update_id :: int
  lib_text :: "string option"
  lib_callback :: "(string \<times> string option) option"
  lib_user :: "lib_user option"
  lib_chat :: "int option"

datatype runner_state = STATE_INIT | STATE_CATEGORY | STATE_DESCRIPTION

text \<open>
  \<open>runner_user_data\<close> maps a user to the value under \<open>category\<close>: the inner dictionary
  is created and filled in one step and has no other key.
\<close>

record runner =
  runner_user_states :: "int \<rightharpoonup> runner_state"
  runner_user_data :: "int \<rightharpoonup> string option"
  runner_reports :: "report list"
  runner_sent :: "(outbound \<times> bool) list"

record runner_env =
  runner_db_ok :: bool
  runner_net_ok :: "outbound \<Rightarrow> bool"
  runner_clock :: nat

definition categories_runner :: "string list" where
  "categories_runner =
     [''Delivery Issue'', ''Product Quality'', ''Wrong Item'', ''Damaged Package'',
      ''Payment Issue'', ''Missing Parts'', ''Other'']"

definition and_then :: "'s outcome \<Rightarrow> ('s \<Rightarrow> 's outcome) \<Rightarrow> 's outcome" where
  "and_then r f = (case r of Raised s \<Rightarrow> Raised s | Returned s \<Rightarrow> f s)"

text \<open>A call of a sender of the library: logged, and raising when the request fails.\<close>

definition lib_send :: "runner_env \<Rightarrow> outbound \<Rightarrow> runner \<Rightarrow> runner outcome" where
  "lib_send e out st =
     (let st' = st\<lparr>runner_sent := runner_sent st @ [(out, runner_net_ok e out)]\<rparr>
      in if runner_net_ok e out then Returned st' else Raised st')"

text \<open>\<open>bot.send_message(chat_id=update.effective_chat.id, text=...)\<close>.\<close>

definition reply :: "runner_env \<Rightarrow> lib_update \<Rightarrow> body \<Rightarrow> runner \<Rightarrow> runner outcome" where
  "reply e upd b st =
     (case lib_chat upd of
        None \<Rightarrow> Raised st
      | Some c \<Rightarrow> lib_send e (SendMessage (ChatId c) b) st)"

definition save_report_runner ::
  "runner_env \<Rightarrow> int \<Rightarrow> string \<Rightarrow> string option \<Rightarrow> string \<Rightarrow> runner \<Rightarrow> nat option \<times> runner" where
  "save_report_runner e user_id username category description st =
     (case category of
        None \<Rightarrow> (None, st)
      | Some cat \<Rightarrow>
          if runner_db_ok e then
            (let report_id = next_rowid (runner_reports st)
             in (Some report_id,
                 st\<lparr>runner_reports := runner_reports st @
                   [\<lparr>r_id = report_id, r_user_id = user_id, r_username = username,
                     r_category = cat, r_description = description,
                     r_status = ''Pending'', r_timestamp = runner_clock e\<rparr>]\<rparr>))
          else (None, st))"

definition cmd_start_runner :: "runner_env \<Rightarrow> lib_update \<Rightarrow> lib_user \<Rightarrow> runner \<Rightarrow> runner outcome" where
  "cmd_start_runner e upd user st = reply e upd (Hello (lu_first_name user)) st"

definition cmd_help :: "runner_env \<Rightarrow> lib_update \<Rightarrow> runner \<Rightarrow> runner outcome" where
  "cmd_help e upd st = reply e upd HelpText st"

definition cmd_report_runner :: "runner_env \<Rightarrow> lib_update \<Rightarrow> runner \<Rightarrow> runner outcome" where
  "cmd_report_runner e upd st = reply e upd (CategoryPrompt categories_runner) st"

definition cmd_cancel :: "runner_env \<Rightarrow> lib_update \<Rightarrow> lib_user \<Rightarrow> runner \<Rightarrow> runner outcome" where
  "cmd_cancel e upd user st =
     reply e upd Cancelled (st\<lparr>runner_user_data := (runner_user_data st)(lu_id user := None)\<rparr>)"

definition process_category_runner ::
  "runner_env \<Rightarrow> lib_update \<Rightarrow> lib_user \<Rightarrow> string \<times> string option \<Rightarrow> runner \<Rightarrow> runner outcome" where
  "process_category_runner e upd user query st =
     (let category = snd query;
          st1 = st\<lparr>runner_user_data := (runner_user_data st)(lu_id user \<mapsto> category)\<rparr>
      in and_then (lib_send e (AnswerCallbackQuery (Some (fst query))) st1)
           (reply e upd (YouSelected category)))"

text \<open>
  The name that \<open>process_description\<close> of this variant and \<open>report_description\<close> of
  \<open>standalone_bot.py\<close> file a report under:
  \<open>user.username\<close>, and when that is \<open>None\<close> or empty,
  \<open>f"{user.first_name} {user.last_name or ''}".strip()\<close>.
\<close>

definition username_or_names :: "lib_user \<Rightarrow> string" where
  "username_or_names user =
     (let names = strip (lu_first_name user @ '' '' @
                    (case lu_last_name user of None \<Rightarrow> [] | Some l \<Rightarrow> l))
      in case lu_username user of
           None \<Rightarrow> names
         | Some h \<Rightarrow> if h = [] then names else h)"

definition process_description_runner ::
  "runner_env \<Rightarrow> lib_update \<Rightarrow> lib_user \<Rightarrow> string \<Rightarrow> runner \<Rightarrow> runner outcome" where
  "process_description_runner e upd user description st =
     (case runner_user_data st (lu_id user) of
        None \<Rightarrow> reply e upd LostTrackRunner st
      | Some category \<Rightarrow>
          (let username = username_or_names user;
               (report_id, st1) =
                 save_report_runner e (lu_id user) username category description st
           in and_then (reply e upd (ThankYou report_id category) st1)
                (\<lambda>s. Returned
                   (s\<lparr>runner_user_data := (runner_user_data s)(lu_id user := None)\<rparr>))))"

definition set_state :: "int \<Rightarrow> runner_state \<Rightarrow> runner \<Rightarrow> runner outcome" where
  "set_state user_id q st =
     Returned (st\<lparr>runner_user_states := (runner_user_states st)(user_id \<mapsto> q)\<rparr>)"

definition process_update :: "runner_env \<Rightarrow> lib_update \<Rightarrow> runner \<Rightarrow> runner outcome" where
  "process_update e upd st =
     (if lib_text upd \<noteq> None \<and> lib_text upd \<noteq> Some [] then
        (case lib_user upd of
           None \<Rightarrow> Raised st
         | Some user \<Rightarrow>
             (let user_id = lu_id user; text = the (lib_text upd)
              in if text = ''/start''
                   then and_then (cmd_start_runner e upd user st) (set_state user_id STATE_INIT)
                 else if text = ''/help''
                   then and_then (cmd_help e upd st) (set_state user_id STATE_INIT)
                 else if text = ''/report''
                   then and_then (cmd_report_runner e upd st) (set_state user_id STATE_CATEGORY)
                 else if text = ''/cancel''
                   then and_then (cmd_cancel e upd user st) (set_state user_id STATE_INIT)
                 else if runner_user_states st user_id = Some STATE_DESCRIPTION
                   then and_then (process_description_runner e upd user text st)
                          (set_state user_id STATE_INIT)
                 else Returned st))
      else
        (case lib_callback upd of
           None \<Rightarrow> Returned st
         | Some query \<Rightarrow>
             (case lib_user upd of
                None \<Rightarrow> Raised st
              | Some user \<Rightarrow>
                  if runner_user_states st (lu_id user) = Some STATE_CATEGORY
                  then and_then (process_category_runner e upd user query st)
                         (set_state (lu_id user) STATE_DESCRIPTION)
                  else Returned st)))"

text \<open>
  The \<open>for\<close> loop of \<open>run\<close> of this variant: \<open>last_update_id\<close> is written after each
  handler call that returns.
\<close>

fun runner_loop ::
  "(lib_update \<Rightarrow> 's \<Rightarrow> 's outcome) \<Rightarrow> lib_update list \<Rightarrow> int \<times> 's \<Rightarrow> int \<times> 's" where
  "runner_loop h [] cs = cs"
| "runner_loop h (u # us) cs =
     (case h u (snd cs) of
        Raised s' \<Rightarrow> (fst cs, s')
      | Returned s' \<Rightarrow> runner_loop h us (lib_update_id u, s'))"

text \<open>One turn of its \<open>while\<close> loop; \<open>None\<close> from \<open>fetch\<close> is a request that raised.\<close>

definition run_iteration_runner ::
  "(int \<Rightarrow> lib_update list option) \<Rightarrow> (lib_update \<Rightarrow> 's \<Rightarrow> 's outcome) \<Rightarrow> int \<times> 's
     \<Rightarrow> int \<times> 's" where
  "run_iteration_runner fetch h cs =
     (case fetch (fst cs + 1) of
        None \<Rightarrow> cs
      | Some updates \<Rightarrow> runner_loop h updates cs)"

section \<open>Events and inputs named in the properties\<close>

text \<open>A message that carries a text and nothing else, and a press of an inline button.\<close>

definition text_message :: "int \<Rightarrow> int \<Rightarrow> tg_user \<Rightarrow> string \<Rightarrow> update" where
  "text_message i chat user t =
     \<lparr>update_id = i,
      upd_message = Some \<lparr>m_chat = Some chat, m_from = Some user, m_text = Some t,
                          m_photo = None, m_caption = None\<rparr>,
      upd_callback_query = None\<rparr>"

definition button_press :: "int \<Rightarrow> int \<Rightarrow> tg_user \<Rightarrow> string \<Rightarrow> string \<Rightarrow> update" where
  "button_press i chat user qid d =
     \<lparr>update_id = i, upd_message = None,
      upd_callback_query = Some \<lparr>cq_id = Some qid, cq_from = Some user,
        cq_message = Some \<lparr>m_chat = Some chat, m_from = None, m_text = None,
                            m_photo = None, m_caption = None\<rparr>,
        cq_data = Some d\<rparr>\<rparr>"

text \<open>The tests of \<open>process_command\<close> that send a text to a command handler.\<close>

definition is_report_command :: "string \<Rightarrow> bool" where
  "is_report_command t = (startswith t ''/report'' \<or> lower t = ''report'')"

definition is_refund_command :: "string \<Rightarrow> bool" where
  "is_refund_command t = (startswith t ''/refund'' \<or> lower t = ''refund'')"

definition is_command :: "string \<Rightarrow> bool" where
  "is_command t =
     (startswith t ''/start'' \<or> is_report_command t \<or> is_refund_command t
      \<or> startswith t ''/respond'' \<or> startswith t ''/debug_channel'')"

text \<open>Concrete users, states and environments.\<close>

definition ann :: tg_user where
  "ann = \<lparr>u_id = Some 555, u_username = None, u_first_name = Some ''Ann'',
          u_last_name = Some ''Lee''\<rparr>"

definition empty_bot :: bot where
  "empty_bot = \<lparr>user_states = Map.empty, reports = [], sent = []\<rparr>"

definition bot_awaiting_category :: bot where
  "bot_awaiting_category =
     \<lparr>user_states = [Some 555 \<mapsto> \<lparr>s_state = STATE_AWAITING_CATEGORY, s_category = None,
                                   s_message_data = None\<rparr>],
      reports = [], sent = []\<rparr>"

definition bot_awaiting_description :: bot where
  "bot_awaiting_description =
     \<lparr>user_states = [Some 555 \<mapsto> \<lparr>s_state = STATE_AWAITING_DESCRIPTION,
                                   s_category = Some ''Premiums'', s_message_data = None\<rparr>],
      reports = [], sent = []\<rparr>"

definition env_up :: env where
  "env_up = \<lparr>db_ok = True, net = (\<lambda>out. Some [(''ok'', True)]), clock = 0\<rparr>"

text \<open>An environment where requests to a textual destination fail.\<close>

definition env_channels_down :: env where
  "env_channels_down =
     \<lparr>db_ok = True,
      net = (\<lambda>out. case out of
                     SendMessage (ChatName n) b \<Rightarrow> None
                   | SendPhoto (ChatName n) f b \<Rightarrow> None
                   | _ \<Rightarrow> Some [(''ok'', True)]),
      clock = 0\<rparr>"

text \<open>The same for the variant of \<open>telegram_bot_runner.py\<close>.\<close>

definition lib_ann :: lib_user where
  "lib_ann = \<lparr>lu_id = 555, lu_username = None, lu_first_name = ''Ann'',
              lu_last_name = Some ''Lee''\<rparr>"

definition runner_env_up :: runner_env where
  "runner_env_up = \<lparr>runner_db_ok = True, runner_net_ok = (\<lambda>out. True), runner_clock = 0\<rparr>"

definition runner_awaiting_description :: runner where
  "runner_awaiting_description =
     \<lparr>runner_user_states = [555 \<mapsto> STATE_DESCRIPTION],
      runner_user_data = [555 \<mapsto> Some ''Other''],
      runner_reports = [], runner_sent = []\<rparr>"

definition lib_text_message :: "int \<Rightarrow> int \<Rightarrow> lib_user \<Rightarrow> string \<Rightarrow> lib_update" where
  "lib_text_message i chat user t =
     \<lparr>lib_update_id = i, lib_text = Some t, lib_callback = None, lib_user = Some user,
      lib_chat = Some chat\<rparr>"

text \<open>The handle in the snapshot that \<open>cmd_start\<close> took, if there is one.\<close>

definition snapshot_handle :: "session \<Rightarrow> string option" where
  "snapshot_handle s =
     (case s_message_data s of
        None \<Rightarrow> None
      | Some m \<Rightarrow> (case m_from m of None \<Rightarrow> None | Some u \<Rightarrow> u_username u))"

text \<open>
  Handlers that keep a log of the identifiers they have handled, and raise on one
  identifier; batches for them.
\<close>

definition logging_handler :: "update \<Rightarrow> int list \<Rightarrow> int list outcome" where
  "logging_handler u log =
     (if update_id u = 1 then Raised log else Returned (log @ [update_id u]))"

definition two_updates :: "update list" where
  "two_updates =
     [\<lparr>update_id = 1, upd_message = None, upd_callback_query = None\<rparr>,
      \<lparr>update_id = 2, upd_message = None, upd_callback_query = None\<rparr>]"

definition two_lib_updates :: "lib_update list" where
  "two_lib_updates =
     [\<lparr>lib_update_id = 5, lib_text = None, lib_callback = None, lib_user = None,
       lib_chat = None\<rparr>,
      \<lparr>lib_update_id = 6, lib_text = None, lib_callback = None, lib_user = None,
       lib_chat = None\<rparr>]"

definition lib_logging_handler :: "lib_update \<Rightarrow> int list \<Rightarrow> int list outcome" where
  "lib_logging_handler u log =
     (if lib_update_id u = 6 then Raised log else Returned (log @ [lib_update_id u]))"

section \<open>Lemmas about the handlers\<close>

lemma send_message_fields [simp]:
  "user_states (snd (send_message e d b st)) = user_states st"
  "reports (snd (send_message e d b st)) = reports st"
  "sent (snd (send_message e d b st)) = sent st @ [(SendMessage d b, net e (SendMessage d b))]"
  "fst (send_message e d b st) = net e (SendMessage d b)"
  by (simp_all add: send_message_def Let_def)

lemma send_photo_fields [simp]:
  "user_states (snd (send_photo_to_channel e d f b st)) = user_states st"
  "reports (snd (send_photo_to_channel e d f b st)) = reports st"
  "sent (snd (send_photo_to_channel e d f b st)) = sent st @ [(SendPhoto d f b, net e (SendPhoto d f b))]"
  "fst (send_photo_to_channel e d f b st) = net e (SendPhoto d f b)"
  by (simp_all add: send_photo_to_channel_def Let_def)

lemma answer_callback_fields [simp]:
  "user_states (snd (answer_callback_query e q st)) = user_states st"
  "reports (snd (answer_callback_query e q st)) = reports st"
  "sent (snd (answer_callback_query e q st)) = sent st @ [(AnswerCallbackQuery q, net e (AnswerCallbackQuery q))]"
  by (simp_all add: answer_callback_query_def Let_def)

lemma send_to_channel_fields [simp]:
  "user_states (snd (send_to_channel e b st)) = user_states st"
  "reports (snd (send_to_channel e b st)) = reports st"
  "sent (snd (send_to_channel e b st)) = sent st @ [(SendMessage (ChatName CHANNEL_ID) b, net e (SendMessage (ChatName CHANNEL_ID) b))]"
  by (simp_all add: send_to_channel_def Let_def split_beta)

lemma send_to_channel_result:
  "truthy (fst (send_to_channel e b st)) \<and> get_ok (fst (send_to_channel e b st)) \<longleftrightarrow>
   truthy (net e (SendMessage (ChatName CHANNEL_ID) b)) \<and> get_ok (net e (SendMessage (ChatName CHANNEL_ID) b))"
  by (auto simp add: send_to_channel_def Let_def split_beta truthy_def get_ok_def)

lemma in_state_cong: "user_states st' = user_states st \<Longrightarrow> in_state st' u q = in_state st u q"
  by (simp add: in_state_def)

lemma startswith_append: "startswith t p \<Longrightarrow> \<exists>r. t = p @ r"
  unfolding startswith_def by (metis append_take_drop_id)

lemma lower_length: "lower t = w \<Longrightarrow> length t = length w"
  unfolding lower_def by auto

lemma report_command_facts:
  assumes "is_report_command t"
  shows "t \<noteq> []" and "\<not> startswith t ''/start''"
proof -
  from assms consider (a) "startswith t ''/report''" | (b) "lower t = ''report''"
    unfolding is_report_command_def by blast
  then have "t \<noteq> [] \<and> \<not> startswith t ''/start''"
  proof cases
    case a
    then obtain r where "t = ''/report'' @ r" using startswith_append by blast
    then show ?thesis by (simp add: startswith_def)
  next
    case b
    then have l: "length t = 6" using lower_length by fastforce
    have "\<not> startswith t ''/start''"
    proof
      assume "startswith t ''/start''"
      then have "t = ''/start''" using l by (simp add: startswith_def)
      then have "lower t = ''/start''" by (simp add: lower_def lower_char_def)
      with b show False by simp
    qed
    with l show ?thesis by auto
  qed
  then show "t \<noteq> []" and "\<not> startswith t ''/start''" by simp_all
qed

lemma refund_command_facts:
  assumes "is_refund_command t"
  shows "t \<noteq> []" and "\<not> startswith t ''/start''" and "\<not> is_report_command t"
proof -
  from assms consider (a) "startswith t ''/refund''" | (b) "lower t = ''refund''"
    unfolding is_refund_command_def by blast
  then have "t \<noteq> [] \<and> \<not> startswith t ''/start'' \<and> \<not> is_report_command t"
  proof cases
    case a
    then obtain r where "t = ''/refund'' @ r" using startswith_append by blast
    then show ?thesis
      by (simp add: startswith_def is_report_command_def lower_def lower_char_def)
  next
    case b
    then have l: "length t = 6" using lower_length by fastforce
    have "\<not> startswith t ''/start''"
    proof
      assume "startswith t ''/start''"
      then have "t = ''/start''" using l by (simp add: startswith_def)
      then have "lower t = ''/start''" by (simp add: lower_def lower_char_def)
      with b show False by simp
    qed
    moreover have "\<not> startswith t ''/report''" using l by (auto simp add: startswith_def)
    moreover have "lower t \<noteq> ''report''" using b by simp
    ultimately show ?thesis using l by (auto simp add: is_report_command_def)
  qed
  then show "t \<noteq> []" and "\<not> startswith t ''/start''" and "\<not> is_report_command t" by simp_all
qed

lemma process_command_report:
  assumes "chat \<noteq> 0" and "is_report_command t"
  shows "process_command e (text_message i chat user t) st = cmd_report e chat (u_id user) st"
  using assms report_command_facts [OF assms(2)]
  by (simp add: process_command_def text_message_def is_report_command_def)

lemma process_command_refund:
  assumes "chat \<noteq> 0" and "is_refund_command t"
  shows "process_command e (text_message i chat user t) st = cmd_refund e chat (u_id user) st"
  using assms refund_command_facts [OF assms(2)]
  by (simp add: process_command_def text_message_def is_report_command_def is_refund_command_def)

lemma process_command_plain:
  assumes "chat \<noteq> 0" and "t \<noteq> []" and "\<not> is_command t"
  shows "process_command e (text_message i chat user t) st =
         (if in_state st (u_id user) STATE_AWAITING_DESCRIPTION
          then process_description e chat (u_id user) t st else st)"
  using assms
  by (simp add: process_command_def text_message_def is_command_def is_report_command_def
      is_refund_command_def)

lemma cmd_report_fields:
  "user_states (cmd_report e chat uid st) =
     (user_states st)(uid \<mapsto> \<lparr>s_state = STATE_AWAITING_CATEGORY, s_category = None,
                               s_message_data = get_message_data st uid\<rparr>)"
  "reports (cmd_report e chat uid st) = reports st"
  by (simp_all add: cmd_report_def Let_def)

lemma cmd_refund_fields:
  "user_states (cmd_refund e chat uid st) =
     (user_states st)(uid \<mapsto> \<lparr>s_state = STATE_AWAITING_DESCRIPTION, s_category = Some ''Refund'',
                               s_message_data = get_message_data st uid\<rparr>)"
  "reports (cmd_refund e chat uid st) = reports st"
  by (simp_all add: cmd_refund_def Let_def)

lemma process_category_fields [simp]:
  "user_states (process_category e chat uid c st) = user_states st"
  "reports (process_category e chat uid c st) = reports st"
  by (simp_all add: process_category_def)

lemma button_press_known:
  assumes "chat \<noteq> 0" and "uid \<noteq> 0" and "u_id user = Some uid" and "c \<in> set CATEGORIES"
    and "in_state st (Some uid) STATE_AWAITING_CATEGORY"
  shows "user_states (process_callback_query e (button_press i chat user qid c) st) =
           (user_states st)(Some uid \<mapsto> \<lparr>s_state = STATE_AWAITING_DESCRIPTION,
              s_category = Some c, s_message_data = get_message_data st (Some uid)\<rparr>)"
    and "reports (process_callback_query e (button_press i chat user qid c) st) = reports st"
proof -
  have ne: "c \<noteq> []" using assms(4) by (auto simp add: CATEGORIES_def)
  have is1: "in_state (snd (answer_callback_query e (Some qid) st)) (Some uid) STATE_AWAITING_CATEGORY"
    using assms(5) by (simp add: in_state_def)
  have md: "get_message_data (snd (answer_callback_query e (Some qid) st)) (Some uid)
            = get_message_data st (Some uid)"
    by (simp add: get_message_data_def)
  show "user_states (process_callback_query e (button_press i chat user qid c) st) =
           (user_states st)(Some uid \<mapsto> \<lparr>s_state = STATE_AWAITING_DESCRIPTION,
              s_category = Some c, s_message_data = get_message_data st (Some uid)\<rparr>)"
    using assms(1-4) ne is1 md
    by (simp add: process_callback_query_def button_press_def Let_def)
  show "reports (process_callback_query e (button_press i chat user qid c) st) = reports st"
    using assms(1-4) ne is1
    by (simp add: process_callback_query_def button_press_def Let_def)
qed

lemma process_description_saved:
  assumes "user_states st (Some uid) = Some s" and "s_category s = Some c" and "db_ok e"
  shows "reports (process_description e chat (Some uid) d st) =
           reports st @ [\<lparr>r_id = next_rowid (reports st), r_user_id = uid,
             r_username = resolve_username s (Some uid), r_category = c, r_description = d,
             r_status = ''Pending'', r_timestamp = clock e\<rparr>]"
    and "user_states (process_description e chat (Some uid) d st) =
           (user_states st)(Some uid \<mapsto> idle_session)"
  using assms
  by (simp_all add: process_description_def save_report_def Let_def split_beta next_rowid_def)

lemma in_state_upd [simp]:
  "in_state (st\<lparr>user_states := m\<rparr>) u q = (case m u of None \<Rightarrow> False | Some s \<Rightarrow> s_state s = q)"
  by (simp add: in_state_def)

lemma split_max_length_le: "length (split_max k s) \<le> Suc k"
  by (induction k arbitrary: s) (auto split: list.splits)

lemma dropWhile_head: "dropWhile P s = c # cs \<Longrightarrow> \<not> P c"
  by (metis hd_dropWhile list.sel(1) list.distinct(1))

lemma split_max_length_le_input: "length (split_max k s) \<le> length s"
proof (induction k arbitrary: s)
  case 0
  show ?case
  proof (cases "dropWhile isspace s")
    case Nil
    then show ?thesis by (simp del: dropWhile_eq_Nil_conv)
  next
    case (Cons c cs)
    have "length (dropWhile isspace s) \<le> length s" by (rule length_dropWhile_le)
    with Cons show ?thesis by simp
  qed
next
  case (Suc k)
  show ?case
  proof (cases "dropWhile isspace s")
    case Nil
    then show ?thesis by (simp del: dropWhile_eq_Nil_conv)
  next
    case (Cons c cs)
    then have nc: "\<not> isspace c" by (rule dropWhile_head)
    have a: "length (dropWhile isspace s) \<le> length s" by (rule length_dropWhile_le)
    have b: "length (split_max k (dropWhile (\<lambda>x. \<not> isspace x) cs))
             \<le> length (dropWhile (\<lambda>x. \<not> isspace x) cs)" by (rule Suc.IH)
    have c: "length (dropWhile (\<lambda>x. \<not> isspace x) cs) \<le> length cs" by (rule length_dropWhile_le)
    from a b c Cons nc show ?thesis by simp
  qed
qed

lemma split_max_length_min:
  "k \<le> n \<Longrightarrow> length (split_max k s) = min (Suc k) (length (split_max n s))"
proof (induction k arbitrary: n s)
  case 0
  show ?case
  proof (cases "dropWhile isspace s")
    case Nil
    then show ?thesis by (cases n) (simp_all del: dropWhile_eq_Nil_conv)
  next
    case (Cons c cs)
    then show ?thesis by (cases n) simp_all
  qed
next
  case (Suc k)
  then obtain n' where n: "n = Suc n'" and le: "k \<le> n'" by (cases n) auto
  show ?case
  proof (cases "dropWhile isspace s")
    case Nil
    then show ?thesis by (simp add: n del: dropWhile_eq_Nil_conv)
  next
    case (Cons c cs)
    then show ?thesis using Suc.IH [OF le] by (simp add: n)
  qed
qed

lemma fewer_than_three_tokens:
  "(length (split_max 2 s) < 3) = (length (split s) < 3)"
proof (cases "2 \<le> length s")
  case True
  then have "length (split_max 2 s) = min 3 (length (split s))"
    using split_max_length_min [of 2 "length s" s] by (simp add: split_def)
  then show ?thesis by auto
next
  case False
  have "length (split_max 2 s) \<le> length s" by (rule split_max_length_le_input)
  moreover have "length (split s) \<le> length s"
    unfolding split_def by (rule split_max_length_le_input)
  ultimately show ?thesis using False by auto
qed

lemma three_tokens: "\<not> length (split s) < 3 \<Longrightarrow> \<not> length (split_max 2 s) < 3"
  by (simp add: fewer_than_three_tokens)

lemma lib_send_fields [simp]:
  "runner_reports (state_of (lib_send e out st)) = runner_reports st"
  "runner_user_data (state_of (lib_send e out st)) = runner_user_data st"
  "runner_user_states (state_of (lib_send e out st)) = runner_user_states st"
  "runner_sent (state_of (lib_send e out st)) = runner_sent st @ [(out, runner_net_ok e out)]"
  by (simp_all add: lib_send_def state_of_def Let_def)

lemma lib_send_returns:
  "runner_net_ok e out \<Longrightarrow> lib_send e out st = Returned (state_of (lib_send e out st))"
  "\<not> runner_net_ok e out \<Longrightarrow> lib_send e out st = Raised (state_of (lib_send e out st))"
  by (simp_all add: lib_send_def state_of_def Let_def)

lemma cancel_is_not_a_command: "\<not> is_command ''/cancel''"
  by (simp add: is_command_def is_report_command_def is_refund_command_def startswith_def
      lower_def lower_char_def)

lemma get_updates_monotone:
  assumes "\<forall>ok us. fetch offset = Fetched ok us \<longrightarrow> (\<forall>u \<in> set us. offset \<le> update_id u)"
  shows "offset \<le> snd (get_updates fetch offset)"
proof (cases "fetch offset")
  case FetchRaised
  then show ?thesis by (simp add: get_updates_def)
next
  case (Fetched ok us)
  show ?thesis
  proof (cases "ok \<and> us \<noteq> []")
    case True
    then have "last us \<in> set us" by simp
    with assms Fetched have "offset \<le> update_id (last us)" by blast
    with Fetched True show ?thesis by (simp add: get_updates_def)
  next
    case False
    with Fetched show ?thesis by (auto simp add: get_updates_def)
  qed
qed

lemma runner_loop_cursor:
  "fst (runner_loop h us (l, s)) = last (l # map lib_update_id (handed_off h us s))"
proof (induction us arbitrary: l s)
  case Nil
  show ?case by simp
next
  case (Cons u us)
  show ?case
  proof (cases "h u s")
    case (Returned s')
    then show ?thesis using Cons.IH [of "lib_update_id u" s'] by simp
  next
    case (Raised s')
    then show ?thesis by simp
  qed
qed

lemma handed_off_subset: "set (handed_off h us s) \<subseteq> set us"
proof (induction us arbitrary: s)
  case Nil
  show ?case by simp
next
  case (Cons u us)
  show ?case
  proof (cases "h u s")
    case (Returned s')
    then show ?thesis using Cons.IH [of s'] by auto
  next
    case (Raised s')
    then show ?thesis by simp
  qed
qed

lemma process_command_respond:
  assumes "upd_message upd = Some msg" and "m_chat msg = Some chat" and "chat \<noteq> 0"
    and "m_photo msg = None" and "m_text msg = Some t" and "startswith t ''/respond''"
  shows "process_command e upd st =
           cmd_respond e chat (case m_from msg of None \<Rightarrow> None | Some u \<Rightarrow> u_id u) t
             (Some upd) st"
proof -
  obtain r where t: "t = ''/respond'' @ r" using assms(6) startswith_append by blast
  show ?thesis
    using assms(1-5)
    by (simp add: process_command_def Let_def t startswith_def lower_def lower_char_def)
qed

section \<open>The properties\<close>

text \<open>
  C1. The start-report command, then the selection of a configured category, then a
  text description (a text that is not empty and that \<open>process_command\<close> does not
  take for a command), with the INSERT going through: exactly one report is added,
  with the selected category, the given description and status Pending, and the
  user's session is back in the idle state with no draft. This holds from every
  session of the user, the fresh one included.
\<close>

theorem report_flow_creates_one_report:
  assumes "chat \<noteq> 0" and "uid \<noteq> 0" and "u_id user = Some uid"
    and "is_report_command t" and "c \<in> set CATEGORIES"
    and "d \<noteq> []" and "\<not> is_command d" and "db_ok e3"
  shows "let st' = run_events [(e1, text_message i1 chat user t),
                               (e2, button_press i2 chat user qid c),
                               (e3, text_message i3 chat user d)] st
         in reports st' = reports st @
              [\<lparr>r_id = next_rowid (reports st), r_user_id = uid,
                r_username = resolve_username
                  \<lparr>s_state = STATE_AWAITING_DESCRIPTION, s_category = Some c,
                    s_message_data = get_message_data st (Some uid)\<rparr> (Some uid),
                r_category = c, r_description = d, r_status = ''Pending'',
                r_timestamp = clock e3\<rparr>]
          \<and> user_states st' (Some uid) = Some idle_session"
proof -
  define st1 where "st1 = process_command e1 (text_message i1 chat user t) st"
  define st2 where "st2 = process_callback_query e2 (button_press i2 chat user qid c) st1"
  define st3 where "st3 = process_command e3 (text_message i3 chat user d) st2"
  have run: "run_events [(e1, text_message i1 chat user t),
                         (e2, button_press i2 chat user qid c),
                         (e3, text_message i3 chat user d)] st = st3"
    by (simp add: route_def text_message_def button_press_def st1_def st2_def st3_def)
  have s1: "st1 = cmd_report e1 chat (Some uid) st"
    using process_command_report [OF assms(1) assms(4)] assms(3) by (simp add: st1_def)
  have u1: "user_states st1 = (user_states st)(Some uid \<mapsto>
              \<lparr>s_state = STATE_AWAITING_CATEGORY, s_category = None,
                s_message_data = get_message_data st (Some uid)\<rparr>)"
    and r1: "reports st1 = reports st"
    by (simp_all add: s1 cmd_report_fields)
  have w1: "in_state st1 (Some uid) STATE_AWAITING_CATEGORY"
    by (simp add: in_state_def u1)
  have m1: "get_message_data st1 (Some uid) = get_message_data st (Some uid)"
    by (simp add: get_message_data_def u1)
  have u2: "user_states st2 = (user_states st1)(Some uid \<mapsto>
              \<lparr>s_state = STATE_AWAITING_DESCRIPTION, s_category = Some c,
                s_message_data = get_message_data st (Some uid)\<rparr>)"
    and r2: "reports st2 = reports st"
    using button_press_known [OF assms(1) assms(2) assms(3) assms(5) w1] m1 r1
    by (simp_all add: st2_def)
  have w2: "in_state st2 (Some uid) STATE_AWAITING_DESCRIPTION"
    by (simp add: in_state_def u2)
  have s3: "st3 = process_description e3 chat (Some uid) d st2"
    using process_command_plain [OF assms(1) assms(6) assms(7)] assms(3) w2
    by (simp add: st3_def)
  have l2: "user_states st2 (Some uid) =
              Some \<lparr>s_state = STATE_AWAITING_DESCRIPTION, s_category = Some c,
                    s_message_data = get_message_data st (Some uid)\<rparr>"
    by (simp add: u2)
  have "reports st3 = reports st @
              [\<lparr>r_id = next_rowid (reports st), r_user_id = uid,
                r_username = resolve_username
                  \<lparr>s_state = STATE_AWAITING_DESCRIPTION, s_category = Some c,
                    s_message_data = get_message_data st (Some uid)\<rparr> (Some uid),
                r_category = c, r_description = d, r_status = ''Pending'',
                r_timestamp = clock e3\<rparr>]"
    using process_description_saved(1) [OF l2 _ assms(8)] r2 by (simp add: s3)
  moreover have "user_states st3 (Some uid) = Some idle_session"
    using process_description_saved(2) [OF l2 _ assms(8)] by (simp add: s3)
  ultimately show ?thesis unfolding run Let_def by simp
qed

theorem report_flow_creates_one_report_witness:
  "reports (run_events [(env_up, text_message 1 555 ann ''/report''),
                        (env_up, button_press 2 555 ann ''q'' ''Premiums''),
                        (env_up, text_message 3 555 ann ''my order never arrived'')]
              empty_bot)
     = [\<lparr>r_id = 1, r_user_id = 555, r_username = ''user_555'', r_category = ''Premiums'',
         r_description = ''my order never arrived'', r_status = ''Pending'',
         r_timestamp = 0\<rparr>]
   \<and> user_states (run_events [(env_up, text_message 1 555 ann ''/report''),
                        (env_up, button_press 2 555 ann ''q'' ''Premiums''),
                        (env_up, text_message 3 555 ann ''my order never arrived'')]
              empty_bot) (Some 555) = Some idle_session"
proof -
  have h: "is_report_command ''/report''" "''Premiums'' \<in> set CATEGORIES"
    "\<not> is_command ''my order never arrived''" "db_ok env_up" "u_id ann = Some 555"
    by (simp_all add: is_report_command_def is_refund_command_def is_command_def
        startswith_def lower_def lower_char_def CATEGORIES_def env_up_def ann_def
        char_of_def bit_0)
  have n: "resolve_username \<lparr>s_state = STATE_AWAITING_DESCRIPTION,
             s_category = Some ''Premiums'',
             s_message_data = get_message_data empty_bot (Some 555)\<rparr> (Some 555) = ''user_555''"
    by (simp add: resolve_username_def get_message_data_def empty_bot_def str_opt_int_def
        str_int_def digits.simps char_of_def bit_0)
  show ?thesis
    using report_flow_creates_one_report [where chat = 555 and uid = 555 and user = ann
        and t = "''/report''" and c = "''Premiums''" and d = "''my order never arrived''"
        and ?e3.0 = env_up and ?e1.0 = env_up and ?e2.0 = env_up and ?i1.0 = 1 and ?i2.0 = 2
        and ?i3.0 = 3 and qid = "''q''" and st = empty_bot] h n
    by (simp add: Let_def next_rowid_def empty_bot_def env_up_def)
qed

text \<open>
  C2 as stated fails in telegram_api_bot.py. While a description is awaited, /cancel
  is filed as a report whose description is /cancel. While a category is awaited,
  /cancel changes nothing: no acknowledgement is sent and the session does not return
  to idle.
\<close>

theorem no_cancel_command_counterexample:
  "in_state bot_awaiting_description (Some 555) STATE_AWAITING_DESCRIPTION
   \<and> map r_description (reports (process_command env_up (text_message 3 555 ann ''/cancel'')
         bot_awaiting_description)) = [''/cancel'']
   \<and> in_state bot_awaiting_category (Some 555) STATE_AWAITING_CATEGORY
   \<and> process_command env_up (text_message 3 555 ann ''/cancel'') bot_awaiting_category
       = bot_awaiting_category"
  by (simp add: ann_def process_command_def text_message_def startswith_def lower_def
      lower_char_def process_description_def save_report_def resolve_username_def
      in_state_def env_up_def bot_awaiting_description_def bot_awaiting_category_def Let_def
      split_beta truthy_def get_ok_def idle_session_def next_rowid_def send_to_channel_def
      send_message_def)

text \<open>
  C2, amended. In telegram_bot_runner.py the cancel command, from every session state,
  creates no report, drops the draft and issues the cancellation acknowledgement, and
  when that request does not raise the session is set to the initial state.
  telegram_api_bot.py has no cancel command: there the text /cancel is a description
  when the session awaits one, and is ignored otherwise.
\<close>

theorem cancel_in_each_variant:
  "(lib_text upd = Some ''/cancel'' \<longrightarrow> lib_user upd = Some user \<longrightarrow> lib_chat upd = Some chat \<longrightarrow>
      (let r = process_update re upd rst; rst' = state_of r
       in runner_reports rst' = runner_reports rst
        \<and> map fst (runner_sent rst') =
            map fst (runner_sent rst) @ [SendMessage (ChatId chat) Cancelled]
        \<and> runner_user_data rst' (lu_id user) = None
        \<and> (runner_net_ok re (SendMessage (ChatId chat) Cancelled) \<longrightarrow>
             r = Returned rst' \<and> runner_user_states rst' (lu_id user) = Some STATE_INIT)))
   \<and> process_command e (text_message i c u ''/cancel'') st =
       (if c \<noteq> 0 \<and> in_state st (u_id u) STATE_AWAITING_DESCRIPTION
        then process_description e c (u_id u) ''/cancel'' st else st)"
proof -
  have a: "lib_text upd = Some ''/cancel'' \<Longrightarrow> lib_user upd = Some user \<Longrightarrow>
           lib_chat upd = Some chat \<Longrightarrow>
      (let r = process_update re upd rst; rst' = state_of r
       in runner_reports rst' = runner_reports rst
        \<and> map fst (runner_sent rst') =
            map fst (runner_sent rst) @ [SendMessage (ChatId chat) Cancelled]
        \<and> runner_user_data rst' (lu_id user) = None
        \<and> (runner_net_ok re (SendMessage (ChatId chat) Cancelled) \<longrightarrow>
             r = Returned rst' \<and> runner_user_states rst' (lu_id user) = Some STATE_INIT))"
    by (cases "runner_net_ok re (SendMessage (ChatId chat) Cancelled)")
       (simp_all add: process_update_def cmd_cancel_def reply_def lib_send_def and_then_def
          set_state_def state_of_def Let_def)
  have b: "process_command e (text_message i c u ''/cancel'') st =
       (if c \<noteq> 0 \<and> in_state st (u_id u) STATE_AWAITING_DESCRIPTION
        then process_description e c (u_id u) ''/cancel'' st else st)"
  proof (cases "c = 0")
    case True
    then show ?thesis by (simp add: process_command_def text_message_def Let_def)
  next
    case False
    then show ?thesis
      using process_command_plain [OF False _ cancel_is_not_a_command, of e i u st] by simp
  qed
  from a b show ?thesis by blast
qed

theorem cancel_in_each_variant_witness:
  "(let r = process_update runner_env_up (lib_text_message 4 555 lib_ann ''/cancel'')
              runner_awaiting_description
    in r = Returned (state_of r)
     \<and> runner_reports (state_of r) = []
     \<and> map fst (runner_sent (state_of r)) = [SendMessage (ChatId 555) Cancelled]
     \<and> runner_user_data (state_of r) 555 = None
     \<and> runner_user_states (state_of r) 555 = Some STATE_INIT)
   \<and> process_command env_up (text_message 3 555 ann ''/cancel'') bot_awaiting_category
       = bot_awaiting_category"
  using cancel_in_each_variant [where upd = "lib_text_message 4 555 lib_ann ''/cancel''"
      and user = lib_ann and chat = 555 and re = runner_env_up
      and rst = runner_awaiting_description and e = env_up and i = 3 and c = 555 and u = ann
      and st = bot_awaiting_category]
  by (simp add: lib_text_message_def lib_ann_def runner_env_up_def Let_def
      runner_awaiting_description_def in_state_def bot_awaiting_category_def ann_def)

text \<open>
  C3. When the INSERT goes through and the dispatch to the report channel then fails
  (no reply, or a reply that is not ok), the report is in the listing of the admin
  console, and the submitter is sent the forwarding-failure message, which is not the
  success message: the only requests of the step are the channel dispatch and that
  message.
\<close>

theorem relay_failure_keeps_report:
  assumes "user_states st (Some uid) = Some s" and "s_category s = Some c" and "db_ok e"
    and "\<forall>b. \<not> (truthy (net e (SendMessage (ChatName CHANNEL_ID) b))
                \<and> get_ok (net e (SendMessage (ChatName CHANNEL_ID) b)))"
  shows "let st' = process_description e chat (Some uid) d st;
             rid = next_rowid (reports st);
             name = resolve_username s (Some uid)
         in \<lparr>r_id = rid, r_user_id = uid, r_username = name, r_category = c,
              r_description = d, r_status = ''Pending'', r_timestamp = clock e\<rparr>
              \<in> set (get_reports st')
          \<and> map fst (sent st') = map fst (sent st) @
              [SendMessage (ChatName CHANNEL_ID)
                 (if c = ''Refund'' then RefundRequest rid (clock e) (Some uid) name d
                  else CategoryReport c rid (clock e) (Some uid) name d),
               SendMessage (ChatId chat) ForwardFailed]"
proof -
  have mem: "\<lparr>r_id = next_rowid (reports st), r_user_id = uid,
               r_username = resolve_username s (Some uid), r_category = c,
               r_description = d, r_status = ''Pending'', r_timestamp = clock e\<rparr>
             \<in> set (get_reports (process_description e chat (Some uid) d st))"
    using process_description_saved(1) [OF assms(1) assms(2) assms(3)]
    by (simp add: get_reports_def)
  have out: "map fst (sent (process_description e chat (Some uid) d st)) = map fst (sent st) @
              [SendMessage (ChatName CHANNEL_ID)
                 (if c = ''Refund''
                  then RefundRequest (next_rowid (reports st)) (clock e) (Some uid)
                         (resolve_username s (Some uid)) d
                  else CategoryReport c (next_rowid (reports st)) (clock e) (Some uid)
                         (resolve_username s (Some uid)) d),
               SendMessage (ChatId chat) ForwardFailed]"
    using assms
    by (simp add: process_description_def save_report_def Let_def split_beta next_rowid_def
        send_to_channel_result)
  from mem out show ?thesis by (simp add: Let_def)
qed

theorem relay_failure_keeps_report_witness:
  "map r_description (get_reports (process_description env_channels_down 555 (Some 555)
       ''my order never arrived'' bot_awaiting_description)) = [''my order never arrived'']
   \<and> map fst (sent (process_description env_channels_down 555 (Some 555)
       ''my order never arrived'' bot_awaiting_description))
     = [SendMessage (ChatName CHANNEL_ID)
          (CategoryReport ''Premiums'' 1 0 (Some 555) ''user_555'' ''my order never arrived''),
        SendMessage (ChatId 555) ForwardFailed]"
proof -
  have h: "user_states bot_awaiting_description (Some 555) =
             Some \<lparr>s_state = STATE_AWAITING_DESCRIPTION, s_category = Some ''Premiums'',
                   s_message_data = None\<rparr>"
    "db_ok env_channels_down"
    "\<forall>b. \<not> (truthy (net env_channels_down (SendMessage (ChatName CHANNEL_ID) b))
                \<and> get_ok (net env_channels_down (SendMessage (ChatName CHANNEL_ID) b)))"
    by (simp_all add: bot_awaiting_description_def env_channels_down_def truthy_def)
  have n: "resolve_username \<lparr>s_state = STATE_AWAITING_DESCRIPTION,
             s_category = Some ''Premiums'', s_message_data = None\<rparr> (Some 555) = ''user_555''"
    by (simp add: resolve_username_def str_opt_int_def str_int_def digits.simps char_of_def bit_0)
  have r: "reports (process_description env_channels_down 555 (Some 555)
       ''my order never arrived'' bot_awaiting_description) =
       [\<lparr>r_id = 1, r_user_id = 555, r_username = ''user_555'', r_category = ''Premiums'',
         r_description = ''my order never arrived'', r_status = ''Pending'',
         r_timestamp = 0\<rparr>]"
    using process_description_saved(1) [OF h(1) _ h(2), of "''Premiums''" 555
        "''my order never arrived''"] n
    by (simp add: next_rowid_def bot_awaiting_description_def env_channels_down_def)
  show ?thesis
    using relay_failure_keeps_report [OF h(1) _ h(2) h(3), of "''Premiums''" 555
        "''my order never arrived''"] n r
    by (simp add: Let_def next_rowid_def get_reports_def bot_awaiting_description_def
        env_channels_down_def)
qed

text \<open>
  C4. A well-formed admin-response command as \<open>process_command\<close> delivers it (a
  message with a chat, no photo, and a text that starts with /respond and has at
  least three tokens): whatever the provider answers to any request, the requests
  of the step are the dispatch to the target user, then the dispatch to the audit
  channel, then the confirmation to the admin. A failed dispatch to the user does
  not keep the audit dispatch from being attempted, and a failed audit dispatch comes
  after the user dispatch was attempted.
\<close>

theorem respond_attempts_both_dispatches:
  assumes "upd_message upd = Some msg" and "m_chat msg = Some chat" and "chat \<noteq> 0"
    and "m_photo msg = None" and "m_text msg = Some t" and "startswith t ''/respond''"
    and "\<not> length (split t) < 3"
  shows "sent (route e upd st) = sent st @
           (let to_user = SendMessage (ChatName (split_max 2 t ! 1))
                            (AdminResponseText (split_max 2 t ! 2));
                to_audit = SendMessage (ChatName ''-1002326727802'')
                             (AdminResponseAudit (split_max 2 t ! 1) (split_max 2 t ! 2));
                to_admin = SendMessage (ChatId chat) RespondOk
            in [(to_user, net e to_user), (to_audit, net e to_audit),
                (to_admin, net e to_admin)])"
proof -
  have p: "photo_of_update (Some upd) = None"
    using assms(1,4) by (simp add: photo_of_update_def)
  have r: "route e upd st =
           cmd_respond e chat (case m_from msg of None \<Rightarrow> None | Some u \<Rightarrow> u_id u) t
             (Some upd) st"
    using process_command_respond [OF assms(1-6)] assms(1) by (simp add: route_def)
  show ?thesis
    using p three_tokens [OF assms(7)]
    by (simp add: r cmd_respond_def respond_text_def Let_def)
qed

theorem respond_attempts_both_dispatches_witness:
  "\<not> length (split ''/respond 555 approved'') < 3
   \<and> sent (route env_channels_down (text_message 7 1 ann ''/respond 555 approved'') empty_bot)
       = [(SendMessage (ChatName ''555'') (AdminResponseText ''approved''), None),
          (SendMessage (ChatName ''-1002326727802'') (AdminResponseAudit ''555'' ''approved''),
           None),
          (SendMessage (ChatId 1) RespondOk, Some [(''ok'', True)])]"
proof -
  have s: "split_max 2 ''/respond 555 approved'' = [''/respond'', ''555'', ''approved'']"
    by (simp add: numeral_2_eq_2 isspace_def)
  have "\<not> length (split_max 2 ''/respond 555 approved'') < 3" by (simp add: s)
  then have a: "\<not> length (split ''/respond 555 approved'') < 3"
    by (simp add: fewer_than_three_tokens)
  have h: "upd_message (text_message 7 1 ann ''/respond 555 approved'') =
             Some \<lparr>m_chat = Some 1, m_from = Some ann, m_text = Some ''/respond 555 approved'',
                   m_photo = None, m_caption = None\<rparr>"
    "startswith ''/respond 555 approved'' ''/respond''"
    by (simp_all add: text_message_def startswith_def)
  show ?thesis
    using respond_attempts_both_dispatches [where upd = "text_message 7 1 ann ''/respond 555 approved''"
        and msg = "\<lparr>m_chat = Some 1, m_from = Some ann,
                   m_text = Some ''/respond 555 approved'', m_photo = None, m_caption = None\<rparr>"
        and chat = 1 and t = "''/respond 555 approved''" and e = env_channels_down
        and st = empty_bot] a h s
    by (simp add: Let_def empty_bot_def env_channels_down_def)
qed

text \<open>
  C5. An admin-response command (the text, or the caption when the update carries a
  photo) with fewer than three whitespace-separated tokens: the only request is the
  usage message to the admin. Nothing is dispatched to a target user or to the audit
  channel, and neither the sessions nor the table change. The handler has no return
  value in any branch; the usage reply is what tells the malformed case apart.
\<close>

theorem malformed_respond_sends_usage_only:
  assumes "length (split (case photo_of_update upd of
                            None \<Rightarrow> t
                          | Some (m, ph) \<Rightarrow> (case m_caption m of None \<Rightarrow> [] | Some c \<Rightarrow> c))) < 3"
  shows "let st' = cmd_respond e chat_id user_id t upd st
         in map fst (sent st') = map fst (sent st) @
              [SendMessage (ChatId chat_id)
                 (case photo_of_update upd of None \<Rightarrow> RespondUsage | Some p \<Rightarrow> PhotoRespondUsage)]
          \<and> reports st' = reports st \<and> user_states st' = user_states st"
proof (cases "photo_of_update upd")
  case None
  with assms have "length (split_max 2 t) < 3" by (simp add: fewer_than_three_tokens)
  with None show ?thesis by (simp add: cmd_respond_def Let_def)
next
  case (Some p)
  obtain m ph where p: "p = (m, ph)" by (cases p)
  with Some assms
  have "length (split_max 2 (case m_caption m of None \<Rightarrow> [] | Some c \<Rightarrow> c)) < 3"
    by (simp add: fewer_than_three_tokens)
  with Some p show ?thesis by (simp add: cmd_respond_def Let_def)
qed

theorem malformed_respond_sends_usage_only_witness:
  "length (split ''/respond 555'') < 3
   \<and> map fst (sent (cmd_respond env_up 1 (Some 1) ''/respond 555''
        (Some (text_message 7 1 ann ''/respond 555'')) empty_bot))
       = [SendMessage (ChatId 1) RespondUsage]"
proof -
  have p: "photo_of_update (Some (text_message 7 1 ann ''/respond 555'')) = None"
    by (simp add: photo_of_update_def text_message_def)
  have h: "length (split ''/respond 555'') < 3"
    by (simp add: fewer_than_three_tokens [symmetric] numeral_2_eq_2 isspace_def)
  show ?thesis
    using malformed_respond_sends_usage_only [where upd = "Some (text_message 7 1 ann ''/respond 555'')"
        and t = "''/respond 555''" and e = env_up and chat_id = 1 and user_id = "Some 1"
        and st = empty_bot] p h
    by (simp add: Let_def empty_bot_def)
qed

text \<open>
  C6. For a session that awaits a category, a button press whose value is not in the
  configured category list leaves every session as it was (that session still awaits
  a category, with the same draft) and creates no report.
\<close>

theorem unknown_category_ignored:
  assumes "in_state st user_id STATE_AWAITING_CATEGORY"
    and "upd_callback_query upd = Some cq"
    and "cq_data cq \<notin> Some ` set CATEGORIES"
  shows "user_states (process_callback_query e upd st) = user_states st
       \<and> reports (process_callback_query e upd st) = reports st
       \<and> in_state (process_callback_query e upd st) user_id STATE_AWAITING_CATEGORY"
proof -
  have a: "user_states (process_callback_query e upd st) = user_states st"
    using assms(2,3)
    by (auto simp add: process_callback_query_def Let_def split: option.splits)
  have b: "reports (process_callback_query e upd st) = reports st"
    using assms(2,3)
    by (auto simp add: process_callback_query_def Let_def split: option.splits)
  from a b assms(1) show ?thesis by (simp add: in_state_def)
qed

theorem unknown_category_ignored_witness:
  "user_states (process_callback_query env_up (button_press 2 555 ann ''q'' ''Refund'')
     bot_awaiting_category) = user_states bot_awaiting_category
   \<and> reports (process_callback_query env_up (button_press 2 555 ann ''q'' ''Refund'')
     bot_awaiting_category) = []
   \<and> in_state (process_callback_query env_up (button_press 2 555 ann ''q'' ''Refund'')
     bot_awaiting_category) (Some 555) STATE_AWAITING_CATEGORY"
  using unknown_category_ignored [where st = bot_awaiting_category and user_id = "Some 555"
      and upd = "button_press 2 555 ann ''q'' ''Refund''" and e = env_up
      and cq = "\<lparr>cq_id = Some ''q'', cq_from = Some ann,
        cq_message = Some \<lparr>m_chat = Some 555, m_from = None, m_text = None,
                            m_photo = None, m_caption = None\<rparr>,
        cq_data = Some ''Refund''\<rparr>"]
  by (simp add: in_state_def bot_awaiting_category_def button_press_def CATEGORIES_def)

text \<open>
  C7 as stated fails in telegram_api_bot.py: a sender without a handle but with a
  first and a last name, after /start, report, a category and a description, is filed
  under the synthetic name, not under the names.
\<close>

theorem names_never_used_counterexample:
  "u_username ann = None \<and> u_first_name ann = Some ''Ann'' \<and> u_last_name ann = Some ''Lee''
   \<and> map r_username
        (reports (run_events
           [(env_up, text_message 0 555 ann ''/start''),
            (env_up, text_message 1 555 ann ''report''),
            (env_up, button_press 2 555 ann ''q'' ''Premiums''),
            (env_up, text_message 3 555 ann ''broken'')] empty_bot))
     = [''user_555'']"
  by (simp add: ann_def route_def process_command_def process_callback_query_def text_message_def
      button_press_def startswith_def lower_def lower_char_def cmd_start_def cmd_report_def
      process_category_def process_description_def save_report_def resolve_username_def
      get_message_data_def in_state_def CATEGORIES_def env_up_def empty_bot_def Let_def
      split_beta str_opt_int_def str_int_def digits.simps char_of_def bit_0 truthy_def
      get_ok_def idle_session_def next_rowid_def send_to_channel_def send_message_def
      answer_callback_query_def)

text \<open>
  C7, amended. In telegram_api_bot.py a completed report is filed under the handle in
  the snapshot that the /start command took of the sender, and under the synthetic
  name made of user_ and the identity when the snapshot or the handle is missing;
  first and last name are never used. In telegram_bot_runner.py (and in the same
  lines of standalone_bot.py) it is filed under the handle when that is present and
  not empty, and under the trimmed first name, space, last name otherwise; there is
  no synthetic name.
\<close>

theorem persisted_username:
  "(user_states st (Some uid) = Some s \<longrightarrow> s_category s = Some c \<longrightarrow> db_ok e \<longrightarrow>
      map r_username (reports (process_description e chat (Some uid) d st)) =
        map r_username (reports st) @
          [case snapshot_handle s of Some h \<Rightarrow> h | None \<Rightarrow> ''user_'' @ str_int uid])
   \<and> (runner_user_data rst (lu_id user) = Some (Some rc) \<longrightarrow> runner_db_ok re \<longrightarrow>
      map r_username (runner_reports (state_of
          (process_description_runner re upd user d rst))) =
        map r_username (runner_reports rst) @
          [if lu_username user = None \<or> lu_username user = Some []
           then strip (lu_first_name user @ '' '' @
                       (case lu_last_name user of None \<Rightarrow> [] | Some l \<Rightarrow> l))
           else the (lu_username user)])"
proof -
  have a: "resolve_username s (Some uid) =
           (case snapshot_handle s of Some h \<Rightarrow> h | None \<Rightarrow> ''user_'' @ str_int uid)"
    by (simp add: resolve_username_def snapshot_handle_def str_opt_int_def split: option.splits)
  have b: "username_or_names user =
           (if lu_username user = None \<or> lu_username user = Some []
            then strip (lu_first_name user @ '' '' @
                        (case lu_last_name user of None \<Rightarrow> [] | Some l \<Rightarrow> l))
            else the (lu_username user))"
    by (simp add: username_or_names_def Let_def split: option.splits)
  have c: "runner_user_data rst (lu_id user) = Some (Some rc) \<Longrightarrow> runner_db_ok re \<Longrightarrow>
      map r_username (runner_reports (state_of
          (process_description_runner re upd user d rst))) =
        map r_username (runner_reports rst) @ [username_or_names user]"
    by (cases "lib_chat upd"; cases "runner_net_ok re (SendMessage (ChatId (the (lib_chat upd)))
          (ThankYou (Some (next_rowid (runner_reports rst))) (Some rc)))")
       (auto simp add: process_description_runner_def save_report_runner_def Let_def
          reply_def and_then_def state_of_def lib_send_def)
  show ?thesis
    using process_description_saved(1) [of st uid s c e chat d] a b c by simp
qed

theorem persisted_username_witness:
  "map r_username (reports (process_description env_up 555 (Some 555) ''broken''
       bot_awaiting_description)) = [''user_555'']
   \<and> map r_username (runner_reports (state_of
       (process_description_runner runner_env_up (lib_text_message 3 555 lib_ann ''broken'')
          lib_ann ''broken'' runner_awaiting_description))) = [''Ann Lee'']"
proof -
  have h: "user_states bot_awaiting_description (Some 555) =
             Some \<lparr>s_state = STATE_AWAITING_DESCRIPTION, s_category = Some ''Premiums'',
                   s_message_data = None\<rparr>"
    "db_ok env_up"
    "runner_user_data runner_awaiting_description (lu_id lib_ann) = Some (Some ''Other'')"
    "runner_db_ok runner_env_up"
    by (simp_all add: bot_awaiting_description_def env_up_def runner_awaiting_description_def
        lib_ann_def runner_env_up_def)
  have n: "''user_'' @ str_int 555 = ''user_555''"
    "strip ''Ann Lee'' = ''Ann Lee''"
    by (simp_all add: str_int_def digits.simps char_of_def bit_0 strip_def isspace_def)
  show ?thesis
    using persisted_username [where st = bot_awaiting_description and uid = 555
        and s = "\<lparr>s_state = STATE_AWAITING_DESCRIPTION, s_category = Some ''Premiums'',
                   s_message_data = None\<rparr>"
        and c = "''Premiums''" and e = env_up and chat = 555 and d = "''broken''"
        and rst = runner_awaiting_description and user = lib_ann and rc = "''Other''"
        and re = runner_env_up and upd = "lib_text_message 3 555 lib_ann ''broken''"] h n
    by (simp add: snapshot_handle_def bot_awaiting_description_def
        runner_awaiting_description_def lib_ann_def)
qed

text \<open>
  C8. For a session that awaits a category, a text that \<open>process_command\<close> does not
  take for a command changes nothing at all: no report is created, and the session
  stays where it is instead of completing.
\<close>

theorem text_while_awaiting_category_ignored:
  assumes "in_state st (u_id user) STATE_AWAITING_CATEGORY" and "\<not> is_command t"
  shows "process_command e (text_message i chat user t) st = st"
proof -
  have "\<not> in_state st (u_id user) STATE_AWAITING_DESCRIPTION"
    using assms(1) by (auto simp add: in_state_def split: option.splits)
  then show ?thesis using assms(2)
    by (simp add: process_command_def text_message_def is_command_def is_report_command_def
        is_refund_command_def Let_def)
qed

theorem text_while_awaiting_category_ignored_witness:
  "in_state bot_awaiting_category (u_id ann) STATE_AWAITING_CATEGORY
   \<and> \<not> is_command ''my order never arrived''
   \<and> process_command env_up (text_message 3 555 ann ''my order never arrived'')
       bot_awaiting_category = bot_awaiting_category"
proof -
  have h: "in_state bot_awaiting_category (u_id ann) STATE_AWAITING_CATEGORY"
    "\<not> is_command ''my order never arrived''"
    by (simp_all add: in_state_def bot_awaiting_category_def ann_def is_report_command_def
        is_refund_command_def is_command_def startswith_def lower_def lower_char_def
        char_of_def bit_0)
  show ?thesis
    using text_while_awaiting_category_ignored [OF h, of env_up 3 555] h by simp
qed

text \<open>
  C9 as stated fails in telegram_api_bot.py: the fetch of a batch with the identifiers
  1 and 2 sets the cursor to 3, and when the handler raises on the first event, the
  turn ends with the cursor past both events though neither has been handed off.
\<close>

theorem cursor_runs_ahead_counterexample:
  "run_iteration (\<lambda>offset. Fetched True two_updates) logging_handler (0, []) = (3, [])
   \<and> handed_off logging_handler two_updates [] = []
   \<and> map update_id two_updates = [1, 2]"
  by (simp add: run_iteration_def get_updates_def two_updates_def logging_handler_def
      state_of_def)

text \<open>
  C9, amended. In both drivers a turn of the polling loop never lowers the cursor,
  provided the transport returns only identifiers at or above the lower bound it was
  asked for. In telegram_api_bot.py the cursor is set past the last event of a
  non-empty batch when the batch is fetched, whatever the handlers then do. In
  telegram_bot_runner.py the cursor after a turn is the identifier of the last event
  of the batch whose handler call returned, and the old cursor when there is none.
\<close>

theorem cursor_of_each_driver:
  "((\<forall>ok us. fetch offset = Fetched ok us \<longrightarrow> (\<forall>u \<in> set us. offset \<le> update_id u)) \<longrightarrow>
      offset \<le> fst (run_iteration fetch h (offset, s)))
   \<and> (fetch offset = Fetched True us \<longrightarrow> us \<noteq> [] \<longrightarrow>
      fst (run_iteration fetch h (offset, s)) = update_id (last us) + 1)
   \<and> ((\<forall>us. lfetch (l + 1) = Some us \<longrightarrow> (\<forall>u \<in> set us. l < lib_update_id u)) \<longrightarrow>
      l \<le> fst (run_iteration_runner lfetch lh (l, ls)))
   \<and> (lfetch (l + 1) = Some lus \<longrightarrow>
      fst (run_iteration_runner lfetch lh (l, ls)) =
        last (l # map lib_update_id (handed_off lh lus ls)))"
proof -
  have a: "(\<forall>ok us. fetch offset = Fetched ok us \<longrightarrow> (\<forall>u \<in> set us. offset \<le> update_id u)) \<Longrightarrow>
      offset \<le> fst (run_iteration fetch h (offset, s))"
    using get_updates_monotone [of fetch offset]
    by (simp add: run_iteration_def split_beta)
  have b: "fetch offset = Fetched True us \<Longrightarrow> us \<noteq> [] \<Longrightarrow>
      fst (run_iteration fetch h (offset, s)) = update_id (last us) + 1"
    by (simp add: run_iteration_def get_updates_def split_beta)
  have d: "lfetch (l + 1) = Some lus \<Longrightarrow>
      fst (run_iteration_runner lfetch lh (l, ls)) =
        last (l # map lib_update_id (handed_off lh lus ls))" for lus
    by (simp add: run_iteration_runner_def runner_loop_cursor)
  have c: "(\<forall>us. lfetch (l + 1) = Some us \<longrightarrow> (\<forall>u \<in> set us. l < lib_update_id u)) \<Longrightarrow>
      l \<le> fst (run_iteration_runner lfetch lh (l, ls))"
  proof (cases "lfetch (l + 1)")
    case None
    then show ?thesis by (simp add: run_iteration_runner_def)
  next
    case (Some us)
    assume g: "\<forall>us. lfetch (l + 1) = Some us \<longrightarrow> (\<forall>u \<in> set us. l < lib_update_id u)"
    have "last (l # map lib_update_id (handed_off lh us ls))
            \<in> set (l # map lib_update_id (handed_off lh us ls))"
      by (rule last_in_set) simp
    then have "last (l # map lib_update_id (handed_off lh us ls)) = l
               \<or> (\<exists>u \<in> set us. last (l # map lib_update_id (handed_off lh us ls))
                     = lib_update_id u)"
      using handed_off_subset [of lh us ls] by auto
    with g Some have "l \<le> last (l # map lib_update_id (handed_off lh us ls))" by force
    with d [OF Some] show ?thesis by simp
  qed
  from a b c d show ?thesis by blast
qed

theorem cursor_of_each_driver_witness:
  "fst (run_iteration (\<lambda>offset. Fetched True two_updates) logging_handler (0, [])) = 3
   \<and> 0 \<le> fst (run_iteration (\<lambda>offset. Fetched True two_updates) logging_handler (0, []))
   \<and> run_iteration_runner (\<lambda>offset. Some two_lib_updates) lib_logging_handler (4, [])
       = (5, [5])
   \<and> handed_off lib_logging_handler two_lib_updates [] = [hd two_lib_updates]"
proof -
  have r: "run_iteration_runner (\<lambda>offset. Some two_lib_updates) lib_logging_handler (4, [])
       = (5, [5])"
    "handed_off lib_logging_handler two_lib_updates [] = [hd two_lib_updates]"
    by (simp_all add: run_iteration_runner_def two_lib_updates_def lib_logging_handler_def)
  show ?thesis
    using cursor_of_each_driver [where fetch = "\<lambda>offset. Fetched True two_updates"
        and offset = 0 and us = two_updates and h = logging_handler and s = "[]"
        and lfetch = "\<lambda>offset. Some two_lib_updates" and l = 4 and lus = two_lib_updates
        and lh = lib_logging_handler and ls = "[]"] r
    by (simp add: two_updates_def two_lib_updates_def)
qed

text \<open>
  C10. From every session, the refund command puts the user's session into the
  state that awaits the description, with the draft category Refund and without any
  category selection. Refund is not in the configured category list, yet the
  description that follows is filed as a report under that category.
\<close>

theorem refund_bypasses_category_selection:
  assumes "chat \<noteq> 0" and "u_id user = Some uid" and "is_refund_command t"
    and "d \<noteq> []" and "\<not> is_command d" and "db_ok e2"
  shows "let st1 = process_command e1 (text_message i1 chat user t) st;
             st2 = process_command e2 (text_message i2 chat user d) st1
         in user_states st1 (Some uid) =
              Some \<lparr>s_state = STATE_AWAITING_DESCRIPTION, s_category = Some ''Refund'',
                    s_message_data = get_message_data st (Some uid)\<rparr>
          \<and> reports st1 = reports st
          \<and> ''Refund'' \<notin> set CATEGORIES
          \<and> reports st2 = reports st @
              [\<lparr>r_id = next_rowid (reports st), r_user_id = uid,
                r_username = resolve_username
                  \<lparr>s_state = STATE_AWAITING_DESCRIPTION, s_category = Some ''Refund'',
                    s_message_data = get_message_data st (Some uid)\<rparr> (Some uid),
                r_category = ''Refund'', r_description = d, r_status = ''Pending'',
                r_timestamp = clock e2\<rparr>]"
proof -
  define st1 where "st1 = process_command e1 (text_message i1 chat user t) st"
  define st2 where "st2 = process_command e2 (text_message i2 chat user d) st1"
  have s1: "st1 = cmd_refund e1 chat (Some uid) st"
    using process_command_refund [OF assms(1) assms(3)] assms(2) by (simp add: st1_def)
  have l1: "user_states st1 (Some uid) =
              Some \<lparr>s_state = STATE_AWAITING_DESCRIPTION, s_category = Some ''Refund'',
                    s_message_data = get_message_data st (Some uid)\<rparr>"
    and r1: "reports st1 = reports st"
    by (simp_all add: s1 cmd_refund_fields)
  have w1: "in_state st1 (Some uid) STATE_AWAITING_DESCRIPTION"
    by (simp add: in_state_def l1)
  have s2: "st2 = process_description e2 chat (Some uid) d st1"
    using process_command_plain [OF assms(1) assms(4) assms(5)] assms(2) w1
    by (simp add: st2_def)
  have "reports st2 = reports st @
              [\<lparr>r_id = next_rowid (reports st), r_user_id = uid,
                r_username = resolve_username
                  \<lparr>s_state = STATE_AWAITING_DESCRIPTION, s_category = Some ''Refund'',
                    s_message_data = get_message_data st (Some uid)\<rparr> (Some uid),
                r_category = ''Refund'', r_description = d, r_status = ''Pending'',
                r_timestamp = clock e2\<rparr>]"
    using process_description_saved(1) [OF l1 _ assms(6)] r1 by (simp add: s2)
  moreover have "''Refund'' \<notin> set CATEGORIES" by (simp add: CATEGORIES_def)
  ultimately show ?thesis using l1 r1 by (simp add: st1_def st2_def Let_def)
qed

theorem refund_bypasses_category_selection_witness:
  "user_states (process_command env_up (text_message 1 555 ann ''Refund'')
       bot_awaiting_category) (Some 555)
     = Some \<lparr>s_state = STATE_AWAITING_DESCRIPTION, s_category = Some ''Refund'',
             s_message_data = None\<rparr>
   \<and> ''Refund'' \<notin> set CATEGORIES
   \<and> map r_category (reports (process_command env_up (text_message 2 555 ann ''paid twice'')
       (process_command env_up (text_message 1 555 ann ''Refund'') bot_awaiting_category)))
     = [''Refund'']"
proof -
  have h: "is_refund_command ''Refund''" "\<not> is_command ''paid twice''" "db_ok env_up"
    "u_id ann = Some 555"
    by (simp_all add: is_report_command_def is_refund_command_def is_command_def
        startswith_def lower_def lower_char_def env_up_def ann_def char_of_def bit_0)
  show ?thesis
    using refund_bypasses_category_selection [where chat = 555 and uid = 555 and user = ann
        and t = "''Refund''" and d = "''paid twice''" and ?e2.0 = env_up and ?e1.0 = env_up
        and ?i1.0 = 1 and ?i2.0 = 2 and st = bot_awaiting_category] h
    by (simp add: Let_def bot_awaiting_category_def get_message_data_def)
qed

end
